theory Spec2Isabelle
  imports Complex_Main "HOL-Library.Multiset" "HOL-Library.Char_ord" "HOL-Library.List_Lexorder"
begin

section \<open>JavaScript values used by the portal code\<close>

text \<open>
  The view components and form scripts work on JavaScript values. What the modelled
  functions look at is small:
  \<^item> strings: \<open>string\<close>; the empty string is falsy, every other string truthy;
  \<^item> a property that may be \<open>undefined\<close> or \<open>null\<close>: an \<open>option\<close>, \<open>None\<close> being falsy;
  \<^item> numbers: \<open>jsnum\<close>, either \<open>NaN\<close> or a finite number. A finite double is
    modelled by the rational it denotes: comparisons of doubles agree with the comparisons
    of their values, and a comparison with \<open>NaN\<close> is false. The one arithmetic
    operation on amounts, a subtraction, rounds its result; the function that uses it
    takes it as a parameter, so that nothing is assumed about the rounding. Infinities do
    not occur: amounts come from JSON and from a number input.
\<close>

datatype jsnum = NaN | Num rat

text \<open>\<open>!!x\<close> for a number: \<open>NaN\<close> and \<open>0\<close> are falsy.\<close>

fun truthy_num :: "jsnum \<Rightarrow> bool" where
  "truthy_num NaN = False"
| "truthy_num (Num q) = (q \<noteq> 0)"

text \<open>\<open>a <= b\<close> and \<open>a > b\<close> on numbers.\<close>

fun num_le :: "jsnum \<Rightarrow> jsnum \<Rightarrow> bool" where
  "num_le (Num a) (Num b) = (a \<le> b)"
| "num_le _ _ = False"

fun num_gt :: "jsnum \<Rightarrow> jsnum \<Rightarrow> bool" where
  "num_gt (Num a) (Num b) = (a > b)"
| "num_gt _ _ = False"

text \<open>\<open>!!s\<close> for a string, and for a property holding a string, \<open>undefined\<close> or \<open>null\<close>.\<close>

definition truthy_str :: "string \<Rightarrow> bool" where
  "truthy_str s = (s \<noteq> [])"

fun truthy_opt :: "string option \<Rightarrow> bool" where
  "truthy_opt None = False"
| "truthy_opt (Some s) = truthy_str s"

section \<open>Reports page: \<open>ordinal\<close>\<close>

text \<open>
  \<^verbatim>\<open>
  const ordinal = (n) => {
    const s = ["th", "st", "nd", "rd"];
    const v = n % 100;
    return n + (s[(v - 20) % 10] || s[v] || s[0]);
  };
  \<close>
  \<open>n\<close> is an integer-valued number. JavaScript's \<open>%\<close> truncates towards zero: the
  result has the sign of the dividend (\<open>js_rem\<close>). Reading an array at an index that is
  negative or beyond its end gives \<open>undefined\<close> (\<open>array_at\<close>, \<open>None\<close>); a remainder of
  \<open>-0\<close> reads index \<open>0\<close>, as the integer \<open>0\<close> does here. \<open>a || b\<close> is \<open>b\<close> when \<open>a\<close> is
  \<open>undefined\<close> or the empty string (\<open>or_else\<close>). \<open>n + ...\<close> concatenates the number's
  string conversion, a built-in that the function takes as \<open>to_string\<close>.
\<close>

definition js_rem :: "int \<Rightarrow> int \<Rightarrow> int" where
  "js_rem a b = sgn a * (\<bar>a\<bar> mod \<bar>b\<bar>)"

definition array_at :: "'a list \<Rightarrow> int \<Rightarrow> 'a option" where
  "array_at xs i = (if 0 \<le> i \<and> i < int (length xs) then Some (xs ! nat i) else None)"

fun or_else :: "string option \<Rightarrow> string option \<Rightarrow> string option" where
  "or_else None b = b"
| "or_else (Some a) b = (if truthy_str a then Some a else b)"

text \<open>
  \<open>n + x\<close> for a number \<open>n\<close>, whose string conversion is the first argument: with a
  string \<open>x\<close> it concatenates; with \<open>undefined\<close> it is the number \<open>NaN\<close>, which
  the page would show as such. \<open>s[0]\<close> ends the chain of \<open>ordinal\<close>, so the second case
  is never reached there.
\<close>

fun plus_str :: "string \<Rightarrow> string option \<Rightarrow> string" where
  "plus_str a (Some b) = a @ b"
| "plus_str a None = ''NaN''"

definition ordinal :: "(int \<Rightarrow> string) \<Rightarrow> int \<Rightarrow> string" where
  "ordinal to_string n =
     (let s = [''th'', ''st'', ''nd'', ''rd''];
          v = js_rem n 100
      in plus_str (to_string n)
           (or_else (array_at s (js_rem (v - 20) 10)) (or_else (array_at s v) (array_at s 0))))"

text \<open>The decimal notation of an integer, which is what JavaScript prints for integers
  below \<open>10^21\<close>; used to run \<open>ordinal\<close> on concrete inputs.\<close>

definition digit :: "nat \<Rightarrow> char" where
  "digit d = ''0123456789'' ! d"

function decimal :: "nat \<Rightarrow> string" where
  "decimal n = (if n < 10 then [digit n] else decimal (n div 10) @ [digit (n mod 10)])"
  by pat_completeness auto
termination
  by (relation "measure id") auto

declare decimal.simps [simp del]

definition number_to_string :: "int \<Rightarrow> string" where
  "number_to_string n = (if n < 0 then CHR ''-'' # decimal (nat (- n)) else decimal (nat n))"

section \<open>Payment dialog (\<open>FeesPaymentDialog.vue\<close>)\<close>

text \<open>
  The dialog's props and refs. \<open>paymentType\<close> is only ever assigned \<open>'Full'\<close> (its
  initial value) or \<open>'Partial'\<close>, by the two buttons. \<open>paymentAmount\<close> starts as \<open>null\<close>
  and is bound with \<open>v-model.number\<close> to a number input: it holds \<open>null\<close> or the empty
  string (\<open>None\<close>: both are falsy and both convert to the number \<open>0\<close>) or a number.
  \<open>amount_outstanding_raw\<close> is the number that \<open>Fees.vue\<close> stores in the row;
  \<open>parseFloat\<close> of a number is that number.
\<close>

datatype payment_type = Full | Partial

record invoice_row =
  invoice :: string
  amount_outstanding_raw :: jsnum

record dialog =
  isProcessing :: bool
  paymentType :: payment_type
  paymentAmount :: "jsnum option"
  paymentError :: string
  email :: string
  mobile_number :: string

text \<open>\<open>x || 0\<close> on a number, \<open>!!a\<close> and the numeric conversion of the amount field.\<close>

fun or_zero :: "jsnum \<Rightarrow> rat" where
  "or_zero NaN = 0"
| "or_zero (Num q) = q"

fun truthy_amount :: "jsnum option \<Rightarrow> bool" where
  "truthy_amount None = False"
| "truthy_amount (Some x) = truthy_num x"

fun to_number :: "jsnum option \<Rightarrow> jsnum" where
  "to_number None = Num 0"
| "to_number (Some x) = x"

text \<open>
  \<^verbatim>\<open>
  const getRemainingAfter = () => {
    const outstanding = parseFloat(props.row.amount_outstanding_raw) || 0
    const paying = paymentAmount.value || 0
    const remaining = outstanding - paying
    return formatCurrency(remaining > 0 ? remaining : 0)
  }
  \<close>
  \<open>formatCurrency\<close> wraps the built-in \<open>Intl.NumberFormat\<close>; the functions take it
  as \<open>fmt\<close>. \<open>sub\<close> is the subtraction of doubles, which gives the double nearest
  to the exact difference.
\<close>

definition getRemainingAfter ::
  "(rat \<Rightarrow> string) \<Rightarrow> (rat \<Rightarrow> rat \<Rightarrow> rat) \<Rightarrow> invoice_row \<Rightarrow> dialog \<Rightarrow> string" where
  "getRemainingAfter fmt sub row d =
     (let outstanding = or_zero (amount_outstanding_raw row);
          paying = (if truthy_amount (paymentAmount d) then or_zero (to_number (paymentAmount d)) else 0);
          remaining = sub outstanding paying
      in fmt (if remaining > 0 then remaining else 0))"

text \<open>
  \<^verbatim>\<open>
  const validatePaymentAmount = () => {
    paymentError.value = ''
    const outstanding = parseFloat(props.row.amount_outstanding_raw) || 0
    if (!paymentAmount.value || paymentAmount.value <= 0) {
      paymentError.value = 'Amount must be greater than zero'
      return false
    }
    if (paymentAmount.value > outstanding) {
      paymentError.value = `Amount cannot exceed outstanding balance (${formatCurrency(outstanding)})`
      return false
    }
    return true
  }
  \<close>
  The function returns its result together with the dialog state it leaves.
\<close>

definition validatePaymentAmount :: "(rat \<Rightarrow> string) \<Rightarrow> invoice_row \<Rightarrow> dialog \<Rightarrow> bool \<times> dialog" where
  "validatePaymentAmount fmt row d =
     (let d1 = d\<lparr>paymentError := []\<rparr>;
          outstanding = or_zero (amount_outstanding_raw row)
      in if \<not> truthy_amount (paymentAmount d1) \<or> num_le (to_number (paymentAmount d1)) (Num 0)
         then (False, d1\<lparr>paymentError := ''Amount must be greater than zero''\<rparr>)
         else if num_gt (to_number (paymentAmount d1)) (Num outstanding)
         then (False, d1\<lparr>paymentError :=
                 ''Amount cannot exceed outstanding balance ('' @ fmt outstanding @ '')''\<rparr>)
         else (True, d1))"

text \<open>
  \<^verbatim>\<open>
  const isFormValid = () => {
    if (paymentType.value === 'Full') {
      return billingDetails.email && billingDetails.mobile_number
    }
    return (billingDetails.email && billingDetails.mobile_number &&
            paymentAmount.value && paymentAmount.value > 0 && validatePaymentAmount())
  }
  \<close>
  \<open>&&\<close> evaluates left to right and stops at the first falsy operand, so
  \<open>validatePaymentAmount\<close> runs (and touches \<open>paymentError\<close>) only when all operands
  before it are truthy. The result is used as a condition only.
\<close>

definition isFormValid :: "(rat \<Rightarrow> string) \<Rightarrow> invoice_row \<Rightarrow> dialog \<Rightarrow> bool \<times> dialog" where
  "isFormValid fmt row d =
     (if paymentType d = Full then (truthy_str (email d) \<and> truthy_str (mobile_number d), d)
      else if truthy_str (email d) \<and> truthy_str (mobile_number d) \<and>
              truthy_amount (paymentAmount d) \<and> num_gt (to_number (paymentAmount d)) (Num 0)
      then validatePaymentAmount fmt row d
      else (False, d))"

text \<open>
  \<open>proceedToPayment\<close> (lines 325 to 369). The remote call
  \<open>piamtech_frappe_education.paystack.initiate_payment\<close> is the parameter \<open>server\<close>: it
  either resolves to a result object or rejects with an error (\<open>Inl\<close>, carrying
  \<open>error.message\<close>). The function's effects are returned: the dialog state, the toasts
  created, the request sent (if any) and the address the window is sent to (if any).
\<close>

record toast =
  title :: string
  description :: string

record payment_request =
  sales_invoice :: string
  payment_amount :: "jsnum option"
  request_email :: string

record init_result =
  success :: bool
  message :: "string option"
  authorization_url :: string

record proceed_effects =
  dialog_after :: dialog
  toasts :: "toast list"
  request :: "payment_request option"
  location_href :: "string option"

fun str_or :: "string option \<Rightarrow> string \<Rightarrow> string" where
  "str_or None d = d"
| "str_or (Some s) d = (if truthy_str s then s else d)"

definition proceedToPayment ::
  "(rat \<Rightarrow> string) \<Rightarrow> (payment_request \<Rightarrow> string option + init_result) \<Rightarrow> invoice_row \<Rightarrow> dialog
     \<Rightarrow> proceed_effects" where
  "proceedToPayment fmt server row d =
     (case isFormValid fmt row d of
        (False, d1) \<Rightarrow>
          \<lparr>dialog_after = d1,
           toasts = [\<lparr>title = ''Validation Error'',
                      description = ''Please fill in all required fields correctly''\<rparr>],
           request = None, location_href = None\<rparr>
      | (True, d1) \<Rightarrow>
          (let d2 = d1\<lparr>isProcessing := True\<rparr>;
               outstanding = or_zero (amount_outstanding_raw row);
               amountToPay = (if paymentType d2 = Full then Some (Num outstanding) else paymentAmount d2);
               rq = \<lparr>sales_invoice = invoice row, payment_amount = amountToPay,
                     request_email = email d2\<rparr>
           in case server rq of
                Inr result \<Rightarrow>
                  if success result
                  then \<lparr>dialog_after = d2, toasts = [], request = Some rq,
                        location_href = Some (authorization_url result)\<rparr>
                  else \<lparr>dialog_after = d2\<lparr>isProcessing := False\<rparr>,
                        toasts = [\<lparr>title = ''Payment Error'',
                                   description = str_or (message result) ''Failed to initiate payment''\<rparr>],
                        request = Some rq, location_href = None\<rparr>
              | Inl error_message \<Rightarrow>
                  \<lparr>dialog_after = d2\<lparr>isProcessing := False\<rparr>,
                   toasts = [\<lparr>title = ''Error'',
                              description = str_or error_message ''Failed to process payment''\<rparr>],
                   request = Some rq, location_href = None\<rparr>))"

section \<open>Reports page and Awards page: filter options and filtered lists\<close>

text \<open>
  The fields of a fetched record that the pages read. A report's \<open>academic_year\<close> and
  \<open>assessment_group\<close> are strings (the page calls \<open>localeCompare\<close> on them); its
  \<open>program\<close> may be missing, which the page guards with \<open>filter(Boolean)\<close>. An award
  is the object that \<open>loadAwards\<close> builds from the server's row.
\<close>

record report =
  report_name :: string
  academic_year :: string
  assessment_group :: string
  program :: "string option"

record award =
  award_name :: string
  award_title :: string
  category :: string
  year :: string

text \<open>
  A dropdown option \<open>{ label, value, onClick }\<close>; \<open>opt_onClick\<close> is the value that
  the handler assigns to the page's filter ref.
\<close>

record filter_option =
  opt_label :: string
  opt_value :: string
  opt_onClick :: string

text \<open>
  \<open>[...new Set(xs)]\<close>: a \<open>Set\<close> keeps its elements in insertion order and ignores an
  element that it already holds.
\<close>

definition set_add :: "'a \<Rightarrow> 'a list \<Rightarrow> 'a list" where
  "set_add x s = (if x \<in> set s then s else s @ [x])"

definition new_Set :: "'a list \<Rightarrow> 'a list" where
  "new_Set xs = fold set_add xs []"

text \<open>
  \<open>.sort()\<close> without a comparator orders strings by their code units, which is the
  lexicographic order of \<open>string\<close>.
\<close>

definition sort_default :: "string list \<Rightarrow> string list" where
  "sort_default xs = sort xs"

text \<open>\<open>.filter(Boolean)\<close> on values that are strings or missing.\<close>

fun filter_Boolean :: "string option list \<Rightarrow> string list" where
  "filter_Boolean [] = []"
| "filter_Boolean (None # xs) = filter_Boolean xs"
| "filter_Boolean (Some s # xs) = (if truthy_str s then s # filter_Boolean xs else filter_Boolean xs)"

definition option_of :: "string \<Rightarrow> filter_option" where
  "option_of v = \<lparr>opt_label = v, opt_value = v, opt_onClick = v\<rparr>"

text \<open>\<open>Reports.vue\<close>, lines 250 to 284.\<close>

definition academicYearFilterOptions :: "report list \<Rightarrow> filter_option list" where
  "academicYearFilterOptions allReports =
     (let years = sort_default (new_Set (map academic_year allReports))
      in \<lparr>opt_label = ''All Years'', opt_value = [], opt_onClick = []\<rparr> # map option_of years)"

definition termFilterOptions :: "report list \<Rightarrow> filter_option list" where
  "termFilterOptions allReports =
     (let terms = sort_default (new_Set (map assessment_group allReports))
      in \<lparr>opt_label = ''All Terms'', opt_value = [], opt_onClick = []\<rparr> # map option_of terms)"

definition programFilterOptions :: "report list \<Rightarrow> filter_option list" where
  "programFilterOptions allReports =
     (let programs = sort_default (new_Set (filter_Boolean (map program allReports)))
      in \<lparr>opt_label = ''All Programs'', opt_value = [], opt_onClick = []\<rparr> # map option_of programs)"

text \<open>\<open>IndividualAwards.vue\<close>, lines 129 to 141. \<open>categoryOptions\<close> is a constant array.\<close>

definition yearOptions :: "award list \<Rightarrow> filter_option list" where
  "yearOptions allAwards =
     (let years = sort_default (new_Set (map year allAwards))
      in [\<lparr>opt_label = ''All Years'', opt_value = [], opt_onClick = []\<rparr>] @ map option_of years)"

definition categoryOptions :: "filter_option list" where
  "categoryOptions =
     [\<lparr>opt_label = ''All Categories'', opt_value = [], opt_onClick = []\<rparr>,
      \<lparr>opt_label = ''Academic'', opt_value = ''Academic'', opt_onClick = ''Academic''\<rparr>,
      \<lparr>opt_label = ''Sports'', opt_value = ''Sports'', opt_onClick = ''Sports''\<rparr>,
      \<lparr>opt_label = ''Leadership'', opt_value = ''Leadership'', opt_onClick = ''Leadership''\<rparr>,
      \<lparr>opt_label = ''Behavioural'', opt_value = ''Behavioural'', opt_onClick = ''Behavioural''\<rparr>]"

text \<open>
  \<open>Array.prototype.sort\<close> with a comparator is stable; \<open>sort_with\<close> is the stable
  insertion sort, which returns what every stable sort returns when the comparator is a
  consistent ordering, as \<open>localeCompare\<close> is. \<open>localeCompare\<close> depends on the
  locale's collation and is the parameter \<open>lc\<close>.
\<close>

fun insert_by :: "('a \<Rightarrow> 'a \<Rightarrow> int) \<Rightarrow> 'a \<Rightarrow> 'a list \<Rightarrow> 'a list" where
  "insert_by cmp x [] = [x]"
| "insert_by cmp x (y # ys) = (if cmp x y \<le> 0 then x # y # ys else y # insert_by cmp x ys)"

definition sort_with :: "('a \<Rightarrow> 'a \<Rightarrow> int) \<Rightarrow> 'a list \<Rightarrow> 'a list" where
  "sort_with cmp xs = foldr (insert_by cmp) xs []"

text \<open>
  \<^verbatim>\<open>
  const filteredReports = computed(() => {
    let filtered = [...allReports.value]
    if (filterYear.value) {
      filtered = filtered.filter(r => r.academic_year === filterYear.value)
    }
    if (filterTerm.value) {
      filtered = filtered.filter(r => r.assessment_group === filterTerm.value)
    }
    if (filterProgram.value) {
      filtered = filtered.filter(r => r.program === filterProgram.value)
    }
    return filtered.sort((a, b) => {
      if (a.academic_year !== b.academic_year) {
        return b.academic_year.localeCompare(a.academic_year)
      }
      return a.assessment_group.localeCompare(b.assessment_group)
    })
  })
  \<close>
  The filter refs hold strings: \<open>''\<close> initially and after \<open>clearFilters\<close>, otherwise
  the value of a chosen option.
\<close>

definition report_order :: "(string \<Rightarrow> string \<Rightarrow> int) \<Rightarrow> report \<Rightarrow> report \<Rightarrow> int" where
  "report_order lc a b =
     (if academic_year a \<noteq> academic_year b then lc (academic_year b) (academic_year a)
      else lc (assessment_group a) (assessment_group b))"

definition filteredReports ::
  "(string \<Rightarrow> string \<Rightarrow> int) \<Rightarrow> report list \<Rightarrow> string \<Rightarrow> string \<Rightarrow> string \<Rightarrow> report list" where
  "filteredReports lc allReports filterYear filterTerm filterProgram =
     (let filtered = allReports;
          filtered = (if truthy_str filterYear
                      then filter (\<lambda>r. academic_year r = filterYear) filtered else filtered);
          filtered = (if truthy_str filterTerm
                      then filter (\<lambda>r. assessment_group r = filterTerm) filtered else filtered);
          filtered = (if truthy_str filterProgram
                      then filter (\<lambda>r. program r = Some filterProgram) filtered else filtered)
      in sort_with (report_order lc) filtered)"

text \<open>
  \<^verbatim>\<open>
  const filteredAwards = computed(() => {
    return allAwards.value.filter(a =>
      (!filterYear.value || a.year === filterYear.value) &&
      (!filterCategory.value || a.category === filterCategory.value))
  })
  \<close>
\<close>

definition filteredAwards :: "award list \<Rightarrow> string \<Rightarrow> string \<Rightarrow> award list" where
  "filteredAwards allAwards filterYear filterCategory =
     filter (\<lambda>a. (\<not> truthy_str filterYear \<or> year a = filterYear) \<and>
                  (\<not> truthy_str filterCategory \<or> category a = filterCategory)) allAwards"

section \<open>Reports page: \<open>loadReports\<close>\<close>

text \<open>
  \<^verbatim>\<open>
  const loadReports = async () => {
    try {
      isLoading.value = !allReports.value.length
      isRefreshing.value = true
      const result = await apiCall('/api/method/...get_student_reports_with_program')
      allReports.value = result.message || []
    } catch (error) {
      showAlert('Error loading reports: ' + error.message, 'error')
      allReports.value = []
    } finally {
      isLoading.value = false
      isRefreshing.value = false
    }
  }
  \<close>
  The page's refs are a record. The outcome of \<open>apiCall\<close> is the parameter: \<open>Inl\<close> is
  the message of the error it throws, \<open>Inr\<close> the \<open>message\<close> property of the result
  (\<open>None\<close> when absent). \<open>showAlert\<close> also starts a timer that empties the alert
  after five seconds; the state modelled is the one \<open>loadReports\<close> leaves.
\<close>

record reports_page =
  isLoading :: bool
  isRefreshing :: bool
  alertMessage :: string
  alertType :: string
  allReports :: "report list"

definition showAlert :: "string \<Rightarrow> string \<Rightarrow> reports_page \<Rightarrow> reports_page" where
  "showAlert msg type s = s\<lparr>alertMessage := msg, alertType := type\<rparr>"

definition loadReports :: "(string + report list option) \<Rightarrow> reports_page \<Rightarrow> reports_page" where
  "loadReports outcome s =
     (let s1 = s\<lparr>isLoading := (length (allReports s) = 0), isRefreshing := True\<rparr>;
          s2 = (case outcome of
                  Inr result_message \<Rightarrow>
                    s1\<lparr>allReports := (case result_message of Some rs \<Rightarrow> rs | None \<Rightarrow> [])\<rparr>
                | Inl error_message \<Rightarrow>
                    (showAlert (''Error loading reports: '' @ error_message) ''error'' s1)
                      \<lparr>allReports := []\<rparr>)
      in s2\<lparr>isLoading := False, isRefreshing := False\<rparr>)"

section \<open>Form scripts\<close>

text \<open>
  The form scripts talk to the server with \<open>frappe.call\<close> and report to the user with
  \<open>frappe.msgprint\<close>. A run of a handler returns the form's document together with
  the events it caused, in order. The callbacks of \<open>frappe.call\<close> run with the server's
  answer, which the handlers take as functions of the call made (\<open>r.message\<close>, \<open>None\<close>
  when absent). \<open>console.log\<close> output is not part of the events.
\<close>

datatype remote_call =
    Get_list string "(string \<times> string) list" "string list" nat
  | Get_doc string string
  | Method_call string "(string \<times> string) list"

datatype school_level = Primary | Secondary

text \<open>The four texts that \<open>populate_skills\<close> passes to \<open>frappe.msgprint\<close>, with the
  values they interpolate.\<close>

datatype notice =
    Skills_populated school_level string nat
  | Program_not_found string
  | Could_not_fetch_settings
  | No_enrollment_found

datatype event = Remote remote_call | Msgprint notice | Refresh_field string

subsection \<open>School Term Result: \<open>populate_skills\<close>\<close>

record enrollment =
  enrolled_program :: string

record program_row =
  row_program :: string

record skill_setting =
  skill_name :: string

record skill_row =
  skill :: string

text \<open>
  The School Settings document; a child table may be absent, which the script guards
  with \<open>|| []\<close> and \<open>settings[field] && ...\<close>.
\<close>

record school_settings =
  primary_programs :: "program_row list option"
  secondary_programs :: "program_row list option"
  primary_psychomotor_skills :: "skill_setting list option"
  primary_affective_skills :: "skill_setting list option"
  secondary_psychomotor_skills :: "skill_setting list option"
  secondary_affective_skills :: "skill_setting list option"

record term_result =
  student :: "string option"
  academic_term :: "string option"
  frm_academic_year :: "string option"
  frm_assessment_group :: "string option"
  psychomotor_skills :: "skill_row list"
  affective_skills :: "skill_row list"

text \<open>\<open>x || []\<close> on a table, and the string a field holds once it is known to be truthy.\<close>

fun or_empty :: "'a list option \<Rightarrow> 'a list" where
  "or_empty None = []"
| "or_empty (Some xs) = xs"

fun str_of :: "string option \<Rightarrow> string" where
  "str_of None = []"
| "str_of (Some s) = s"

text \<open>
  \<open>settings[field]\<close> for the field names the script computes, and the loop
  \<^verbatim>\<open>
  if (settings[f] && settings[f].length > 0) {
    settings[f].forEach(skill => { let row = frm.add_child(table); row.skill = skill.skill_name; });
  }
  \<close>
  on a table: \<open>add_child\<close> appends a new row to the table.
\<close>

fun psychomotor_field :: "school_level \<Rightarrow> school_settings \<Rightarrow> skill_setting list option" where
  "psychomotor_field Primary settings = primary_psychomotor_skills settings"
| "psychomotor_field Secondary settings = secondary_psychomotor_skills settings"

fun affective_field :: "school_level \<Rightarrow> school_settings \<Rightarrow> skill_setting list option" where
  "affective_field Primary settings = primary_affective_skills settings"
| "affective_field Secondary settings = secondary_affective_skills settings"

definition add_child :: "skill_row list \<Rightarrow> skill_setting \<Rightarrow> skill_row list" where
  "add_child table s = table @ [\<lparr>skill = skill_name s\<rparr>]"

fun add_skills :: "skill_setting list option \<Rightarrow> skill_row list \<Rightarrow> skill_row list" where
  "add_skills None table = table"
| "add_skills (Some ss) table = (if length ss > 0 then foldl add_child table ss else table)"

text \<open>
  \<open>populate_skills\<close> (\<open>part_000\<close>, lines 14 to 155). \<open>get_list\<close> and \<open>get_doc\<close> are
  the server's answers to the two calls. The second test of \<open>assessment_group\<close> repeats
  the first, as in the source.
\<close>

definition enrollment_call :: "term_result \<Rightarrow> remote_call" where
  "enrollment_call doc =
     Get_list ''Program Enrollment''
       [(''student'', str_of (student doc)), (''academic_year'', str_of (frm_academic_year doc)),
        (''docstatus'', ''1'')]
       [''program''] 1"

definition settings_call :: remote_call where
  "settings_call = Get_doc ''School Settings'' ''School Settings''"

definition determine_level :: "school_settings \<Rightarrow> string \<Rightarrow> school_level option" where
  "determine_level settings prog =
     (let primary = map row_program (or_empty (primary_programs settings));
          secondary = map row_program (or_empty (secondary_programs settings))
      in if prog \<in> set primary then Some Primary
         else if prog \<in> set secondary then Some Secondary
         else None)"

definition populate_skills ::
  "(remote_call \<Rightarrow> enrollment list option) \<Rightarrow> (remote_call \<Rightarrow> school_settings option) \<Rightarrow>
     term_result \<Rightarrow> term_result \<times> event list" where
  "populate_skills get_list get_doc doc =
     (if \<not> truthy_opt (frm_assessment_group doc) \<or> \<not> truthy_opt (student doc) \<or>
         \<not> truthy_opt (frm_academic_year doc)
      then (doc, [])
      else if \<not> truthy_opt (frm_assessment_group doc) then (doc, [])
      else
        (case get_list (enrollment_call doc) of
           Some (e # es) \<Rightarrow>
             (let prog = enrolled_program e
              in case get_doc settings_call of
                   Some settings \<Rightarrow>
                     (case determine_level settings prog of
                        Some level \<Rightarrow>
                          (let doc1 = doc\<lparr>psychomotor_skills := [], affective_skills := []\<rparr>;
                               doc2 = doc1\<lparr>psychomotor_skills :=
                                        add_skills (psychomotor_field level settings) (psychomotor_skills doc1)\<rparr>;
                               doc3 = doc2\<lparr>affective_skills :=
                                        add_skills (affective_field level settings) (affective_skills doc2)\<rparr>;
                               skill_count = length (or_empty (psychomotor_field level settings)) +
                                             length (or_empty (affective_field level settings))
                           in (doc3, [Remote (enrollment_call doc), Remote settings_call,
                                      Refresh_field ''psychomotor_skills'', Refresh_field ''affective_skills'',
                                      Msgprint (Skills_populated level prog skill_count)]))
                      | None \<Rightarrow>
                          (doc, [Remote (enrollment_call doc), Remote settings_call,
                                 Msgprint (Program_not_found prog)]))
                 | None \<Rightarrow>
                     (doc, [Remote (enrollment_call doc), Remote settings_call,
                            Msgprint Could_not_fetch_settings]))
         | _ \<Rightarrow> (doc, [Remote (enrollment_call doc), Msgprint No_enrollment_found])))"

subsection \<open>Assessment Plan: the \<open>student_group\<close> handler\<close>

text \<open>
  \<^verbatim>\<open>
  student_group: function(frm) {
    if (frm.doc.student_group) {
      frappe.call({
        method: "piamtech_frappe_education.piamtech_frappe_education.api.get_policy_details",
        args: { student_group: frm.doc.student_group },
        callback: function(r) {
          if (r.message) {
            let policy = r.message;
            frm.set_value('maximum_assessment_score', policy.max_assessment_score);
            frm.clear_table('assessment_criteria');
            policy.criteria.forEach(row => {
              let child = frm.add_child('assessment_criteria');
              child.assessment_criteria = row.assessment_criteria;
              child.weightage = row.weightage;
            });
            frm.refresh_field('assessment_criteria');
          }
        }
      });
    }
  }
  \<close>
  A policy is the object that the policy-details method returns: a maximum score and an
  array of criteria.
\<close>

record policy_criterion =
  assessment_criteria :: string
  weightage :: rat

record policy =
  max_assessment_score :: rat
  criteria :: "policy_criterion list"

record criteria_row =
  row_assessment_criteria :: string
  row_weightage :: rat

record assessment_plan =
  student_group :: "string option"
  maximum_assessment_score :: "rat option"
  assessment_criteria_table :: "criteria_row list"

definition policy_call :: "assessment_plan \<Rightarrow> remote_call" where
  "policy_call doc =
     Method_call ''piamtech_frappe_education.piamtech_frappe_education.api.get_policy_details''
       [(''student_group'', str_of (student_group doc))]"

definition add_criterion :: "criteria_row list \<Rightarrow> policy_criterion \<Rightarrow> criteria_row list" where
  "add_criterion table row =
     table @ [\<lparr>row_assessment_criteria = assessment_criteria row, row_weightage = weightage row\<rparr>]"

definition student_group_handler ::
  "(remote_call \<Rightarrow> policy option) \<Rightarrow> assessment_plan \<Rightarrow> assessment_plan \<times> event list" where
  "student_group_handler get_policy_details doc =
     (if truthy_opt (student_group doc)
      then (case get_policy_details (policy_call doc) of
              Some policy \<Rightarrow>
                (let doc1 = doc\<lparr>maximum_assessment_score := Some (max_assessment_score policy)\<rparr>;
                     doc2 = doc1\<lparr>assessment_criteria_table := []\<rparr>;
                     doc3 = doc2\<lparr>assessment_criteria_table :=
                              foldl add_criterion (assessment_criteria_table doc2) (criteria policy)\<rparr>
                 in (doc3, [Remote (policy_call doc), Refresh_field ''assessment_criteria'']))
            | None \<Rightarrow> (doc, [Remote (policy_call doc)]))
      else (doc, []))"

section \<open>Notions used to state the properties\<close>

text \<open>The remote calls among the events of a run, in the order they were made.\<close>

fun remote_calls :: "event list \<Rightarrow> remote_call list" where
  "remote_calls [] = []"
| "remote_calls (Remote c # evs) = c # remote_calls evs"
| "remote_calls (_ # evs) = remote_calls evs"

text \<open>The three fields that \<open>populate_skills\<close> requires are all set.\<close>

definition fields_set :: "term_result \<Rightarrow> bool" where
  "fields_set doc = (truthy_opt (student doc) \<and> truthy_opt (frm_academic_year doc) \<and>
                     truthy_opt (frm_assessment_group doc))"

section \<open>Sample data\<close>

text \<open>Concrete inputs on which the functions are run below.\<close>

definition sample_fmt :: "rat \<Rightarrow> string" where
  "sample_fmt q = ''NGN '' @ number_to_string \<lfloor>q\<rfloor>"

definition sample_row :: invoice_row where
  "sample_row = \<lparr>invoice = ''ACC-SINV-0001'', amount_outstanding_raw = Num 5000\<rparr>"

definition sample_dialog :: dialog where
  "sample_dialog =
     \<lparr>isProcessing = False, paymentType = Partial, paymentAmount = Some (Num 2000),
      paymentError = ''stale'', email = ''ada@example.com'', mobile_number = ''0800''\<rparr>"

definition sample_server :: "payment_request \<Rightarrow> string option + init_result" where
  "sample_server rq =
     Inr \<lparr>success = True, message = None, authorization_url = ''https://checkout.example/p1''\<rparr>"

definition code_unit_compare :: "string \<Rightarrow> string \<Rightarrow> int" where
  "code_unit_compare a b = (if a < b then - 1 else if a = b then 0 else 1)"

definition sample_reports :: "report list" where
  "sample_reports =
     [\<lparr>report_name = ''R-1'', academic_year = ''2023-2024'', assessment_group = ''First Term'',
       program = Some ''Primary 1''\<rparr>,
      \<lparr>report_name = ''R-2'', academic_year = ''2024-2025'', assessment_group = ''Second Term'',
       program = Some ''Primary 2''\<rparr>,
      \<lparr>report_name = ''R-3'', academic_year = ''2024-2025'', assessment_group = ''First Term'',
       program = Some []\<rparr>]"

definition sample_awards :: "award list" where
  "sample_awards =
     [\<lparr>award_name = ''AW-1'', award_title = ''Chess club'', category = ''Arts'', year = ''2024-2025''\<rparr>,
      \<lparr>award_name = ''AW-2'', award_title = ''Relay'', category = ''Sports'', year = ''2023-2024''\<rparr>]"

definition sample_page :: reports_page where
  "sample_page =
     \<lparr>isLoading = False, isRefreshing = False, alertMessage = [], alertType = ''success'',
      allReports = sample_reports\<rparr>"

definition sample_settings :: school_settings where
  "sample_settings =
     \<lparr>primary_programs = Some [\<lparr>row_program = ''Primary 1''\<rparr>, \<lparr>row_program = ''Shared''\<rparr>],
      secondary_programs = Some [\<lparr>row_program = ''JSS 1''\<rparr>, \<lparr>row_program = ''Shared''\<rparr>],
      primary_psychomotor_skills = Some [\<lparr>skill_name = ''Handwriting''\<rparr>, \<lparr>skill_name = ''Drawing''\<rparr>],
      primary_affective_skills = Some [\<lparr>skill_name = ''Punctuality''\<rparr>],
      secondary_psychomotor_skills = Some [\<lparr>skill_name = ''Sports''\<rparr>],
      secondary_affective_skills = None\<rparr>"

definition sample_result :: term_result where
  "sample_result =
     \<lparr>student = Some ''EDU-STU-0001'', academic_term = None,
      frm_academic_year = Some ''2024-2025'', frm_assessment_group = Some ''First Term'',
      psychomotor_skills = [\<lparr>skill = ''Old''\<rparr>], affective_skills = []\<rparr>"

definition sample_enrolled :: "string \<Rightarrow> remote_call \<Rightarrow> enrollment list option" where
  "sample_enrolled prog c = Some [\<lparr>enrolled_program = prog\<rparr>]"

definition sample_policy :: policy where
  "sample_policy =
     \<lparr>max_assessment_score = 100,
      criteria = [\<lparr>assessment_criteria = ''Test'', weightage = 40\<rparr>,
                  \<lparr>assessment_criteria = ''Exam'', weightage = 60\<rparr>]\<rparr>"

definition sample_plan :: assessment_plan where
  "sample_plan =
     \<lparr>student_group = Some ''Primary 1 A'', maximum_assessment_score = None,
      assessment_criteria_table = [\<lparr>row_assessment_criteria = ''Old'', row_weightage = 100\<rparr>]\<rparr>"

section \<open>Properties\<close>

subsection \<open>\<open>ordinal\<close>\<close>

lemma js_rem_nonneg: "0 \<le> a \<Longrightarrow> 0 < b \<Longrightarrow> js_rem a b = a mod b"
  by (simp add: js_rem_def sgn_if)

lemma array_at_suffixes:
  "array_at [''th'', ''st'', ''nd'', ''rd''] i =
     (if i = 0 then Some ''th'' else if i = 1 then Some ''st'' else if i = 2 then Some ''nd''
      else if i = 3 then Some ''rd'' else None)"
proof -
  have "i < 0 \<or> i = 0 \<or> i = 1 \<or> i = 2 \<or> i = 3 \<or> 4 \<le> i" by arith
  then show ?thesis
    by (elim disjE) (simp_all add: array_at_def)
qed

text \<open>The suffix chosen for a remainder \<open>v\<close> of a division by 100: from twenty on the
  first lookup decides, below twenty the second or the third.\<close>

lemma suffix_table:
  assumes "0 \<le> v" "v < 100"
  shows "or_else (array_at [''th'', ''st'', ''nd'', ''rd''] (js_rem (v - 20) 10))
           (or_else (array_at [''th'', ''st'', ''nd'', ''rd''] v) (array_at [''th'', ''st'', ''nd'', ''rd''] 0))
         = Some (if v mod 10 = 1 \<and> v \<noteq> 11 then ''st''
            else if v mod 10 = 2 \<and> v \<noteq> 12 then ''nd''
            else if v mod 10 = 3 \<and> v \<noteq> 13 then ''rd'' else ''th'')"
proof (cases "20 \<le> v")
  case True
  then have r: "js_rem (v - 20) 10 = v mod 10"
    by (simp add: js_rem_nonneg) presburger
  have "v mod 10 = 0 \<or> v mod 10 = 1 \<or> v mod 10 = 2 \<or> v mod 10 = 3 \<or> 4 \<le> v mod 10"
    by presburger
  then show ?thesis using True
    by (elim disjE) (auto simp: r array_at_suffixes truthy_str_def)
next
  case False
  with assms have "v = 0 \<or> v = 1 \<or> v = 2 \<or> v = 3 \<or> v = 10 \<or> (4 \<le> v \<and> v < 10) \<or> (11 \<le> v \<and> v < 20)"
    by arith
  moreover have "4 \<le> v \<Longrightarrow> v < 20 \<Longrightarrow> v \<noteq> 10 \<Longrightarrow> js_rem (v - 20) 10 < 0"
    by (auto simp: js_rem_def sgn_if) presburger
  ultimately show ?thesis
    apply (elim disjE)
    apply (auto simp: array_at_suffixes truthy_str_def js_rem_def)
    apply presburger+
    done
qed

text \<open>
  C8. For every non-negative integer \<open>n\<close>, \<open>ordinal\<close> returns the string of \<open>n\<close>
  followed by \<open>st\<close> when \<open>n\<close> ends in 1 but not in 11, \<open>nd\<close> when it ends in 2 but not
  in 12, \<open>rd\<close> when it ends in 3 but not in 13, and \<open>th\<close> in every other case.
\<close>

theorem ordinal_suffix:
  assumes "0 \<le> n"
  shows "ordinal to_string n = to_string n @
     (if n mod 10 = 1 \<and> n mod 100 \<noteq> 11 then ''st''
      else if n mod 10 = 2 \<and> n mod 100 \<noteq> 12 then ''nd''
      else if n mod 10 = 3 \<and> n mod 100 \<noteq> 13 then ''rd'' else ''th'')"
proof -
  have v: "js_rem n 100 = n mod 100" using assms by (simp add: js_rem_nonneg)
  have m: "n mod 100 mod 10 = n mod 10" by (simp add: mod_mod_cancel)
  have b: "0 \<le> n mod 100" "n mod 100 < 100" by simp_all
  show ?thesis
    unfolding ordinal_def Let_def v suffix_table [OF b] m by simp
qed

theorem ordinal_suffix_witness:
  "(0::int) \<le> 112 \<and> ordinal number_to_string 112 = ''112th'' \<and>
   ordinal number_to_string 23 = ''23rd''"
  using ordinal_suffix [of 112 number_to_string] ordinal_suffix [of 23 number_to_string]
  by (simp add: number_to_string_def decimal.simps digit_def)

subsection \<open>Payment dialog\<close>

lemma validate_true_iff:
  "fst (validatePaymentAmount fmt row d) =
     (\<exists>a. paymentAmount d = Some (Num a) \<and> 0 < a \<and> a \<le> or_zero (amount_outstanding_raw row))"
proof (cases "paymentAmount d")
  case None
  then show ?thesis by (simp add: validatePaymentAmount_def Let_def)
next
  case (Some x)
  then show ?thesis
    by (cases x) (auto simp: validatePaymentAmount_def Let_def)
qed

text \<open>
  C2. \<open>validatePaymentAmount\<close> returns true exactly when the entered amount \<open>a\<close> is a
  number with \<open>0 < a \<le> o\<close>, \<open>o\<close> being the outstanding balance. When it returns true
  the error message is empty. When it returns false the error message is not empty: it
  is \<open>Amount must be greater than zero\<close> when the amount is missing or at most zero, and
  the exceeds-outstanding message otherwise (the amount is then above \<open>o\<close>).
\<close>

theorem validatePaymentAmount_spec:
  "(fst (validatePaymentAmount fmt row d) \<longleftrightarrow>
      (\<exists>a. paymentAmount d = Some (Num a) \<and> 0 < a \<and> a \<le> or_zero (amount_outstanding_raw row))) \<and>
   (fst (validatePaymentAmount fmt row d) \<longrightarrow> paymentError (snd (validatePaymentAmount fmt row d)) = []) \<and>
   (\<not> fst (validatePaymentAmount fmt row d) \<longrightarrow>
      paymentError (snd (validatePaymentAmount fmt row d)) \<noteq> [] \<and>
      paymentError (snd (validatePaymentAmount fmt row d)) =
        (if paymentAmount d = None \<or> paymentAmount d = Some NaN \<or>
            (\<exists>a. paymentAmount d = Some (Num a) \<and> a \<le> 0)
         then ''Amount must be greater than zero''
         else ''Amount cannot exceed outstanding balance ('' @
                fmt (or_zero (amount_outstanding_raw row)) @ '')''))"
proof (cases "paymentAmount d")
  case None
  then show ?thesis by (simp add: validatePaymentAmount_def Let_def)
next
  case (Some x)
  then show ?thesis
    by (cases x) (auto simp: validatePaymentAmount_def Let_def)
qed

theorem validatePaymentAmount_spec_witness:
  "fst (validatePaymentAmount sample_fmt sample_row sample_dialog) \<and>
   paymentError (snd (validatePaymentAmount sample_fmt sample_row sample_dialog)) = [] \<and>
   \<not> fst (validatePaymentAmount sample_fmt sample_row (sample_dialog\<lparr>paymentAmount := Some (Num 6000)\<rparr>)) \<and>
   paymentError (snd (validatePaymentAmount sample_fmt sample_row
       (sample_dialog\<lparr>paymentAmount := Some (Num 6000)\<rparr>))) =
     ''Amount cannot exceed outstanding balance (NGN 5000)'' \<and>
   paymentError (snd (validatePaymentAmount sample_fmt sample_row
       (sample_dialog\<lparr>paymentAmount := None\<rparr>))) = ''Amount must be greater than zero''"
  using validatePaymentAmount_spec [of sample_fmt sample_row sample_dialog]
    validatePaymentAmount_spec [of sample_fmt sample_row "sample_dialog\<lparr>paymentAmount := Some (Num 6000)\<rparr>"]
    validatePaymentAmount_spec [of sample_fmt sample_row "sample_dialog\<lparr>paymentAmount := None\<rparr>"]
  by (simp add: sample_row_def sample_dialog_def sample_fmt_def number_to_string_def
      decimal.simps digit_def)

text \<open>
  C9. For every outstanding balance and every entered amount (also one above the
  outstanding balance), \<open>getRemainingAfter\<close> returns the formatted value of the maximum
  of \<open>outstanding - amount\<close> and \<open>0\<close>, a missing amount counting as zero; the value it
  formats is never negative. This holds whatever the subtraction rounds to, and in
  particular for the exact difference.
\<close>

theorem getRemainingAfter_max:
  "getRemainingAfter fmt sub row d =
     fmt (max (sub (or_zero (amount_outstanding_raw row)) (or_zero (to_number (paymentAmount d)))) 0) \<and>
   getRemainingAfter fmt (-) row d =
     fmt (max (or_zero (amount_outstanding_raw row) - or_zero (to_number (paymentAmount d))) 0) \<and>
   (\<exists>r. 0 \<le> r \<and> getRemainingAfter fmt sub row d = fmt r)"
proof -
  have p: "(if truthy_amount (paymentAmount d) then or_zero (to_number (paymentAmount d)) else 0)
             = or_zero (to_number (paymentAmount d))"
  proof (cases "paymentAmount d")
    case None then show ?thesis by simp
  next
    case (Some x) then show ?thesis by (cases x) auto
  qed
  have e: "getRemainingAfter fmt f row d =
     fmt (max (f (or_zero (amount_outstanding_raw row)) (or_zero (to_number (paymentAmount d)))) 0)"
    for f
    unfolding getRemainingAfter_def Let_def p by (simp add: max_def)
  have "0 \<le> max (sub (or_zero (amount_outstanding_raw row)) (or_zero (to_number (paymentAmount d)))) 0"
    by simp
  with e [of sub] have "\<exists>r. 0 \<le> r \<and> getRemainingAfter fmt sub row d = fmt r"
    by blast
  with e [of sub] e [of "(-)"] show ?thesis by simp
qed

lemma isFormValid_true:
  assumes "fst (isFormValid fmt row d)"
  shows "truthy_str (email d) \<and> truthy_str (mobile_number d) \<and>
         (paymentType d = Partial \<longrightarrow>
            (\<exists>a. paymentAmount d = Some (Num a) \<and> 0 < a \<and> a \<le> or_zero (amount_outstanding_raw row)))"
  using assms validate_true_iff [of fmt row d]
  by (cases "paymentType d") (auto simp: isFormValid_def split: if_splits)

lemma isFormValid_snd:
  "paymentType (snd (isFormValid fmt row d)) = paymentType d \<and>
   paymentAmount (snd (isFormValid fmt row d)) = paymentAmount d \<and>
   email (snd (isFormValid fmt row d)) = email d"
  by (auto simp: isFormValid_def validatePaymentAmount_def Let_def)

text \<open>
  C1. Whenever the form is valid, \<open>proceedToPayment\<close> sends a payment-initiation
  request for the row's invoice whose amount is a number that does not exceed the
  outstanding balance: in Full mode it is the outstanding balance, in Partial mode it is
  the entered amount, which is positive. When the form is not valid no request is sent.
\<close>

theorem proceedToPayment_amount_bounded:
  "(fst (isFormValid fmt row d) \<longrightarrow>
      (\<exists>rq a. request (proceedToPayment fmt server row d) = Some rq \<and>
         sales_invoice rq = invoice row \<and>
         payment_amount rq = Some (Num a) \<and> a \<le> or_zero (amount_outstanding_raw row) \<and>
         (paymentType d = Full \<longrightarrow> a = or_zero (amount_outstanding_raw row)) \<and>
         (paymentType d = Partial \<longrightarrow> paymentAmount d = Some (Num a) \<and> 0 < a))) \<and>
   (\<not> fst (isFormValid fmt row d) \<longrightarrow> request (proceedToPayment fmt server row d) = None)"
proof (cases "isFormValid fmt row d")
  case (Pair ok d1)
  have s: "paymentType d1 = paymentType d" "paymentAmount d1 = paymentAmount d"
    using isFormValid_snd [of fmt row d] Pair by simp_all
  show ?thesis
  proof (cases ok)
    case False
    with Pair show ?thesis by (simp add: proceedToPayment_def)
  next
    case True
    with Pair have v: "fst (isFormValid fmt row d)" by simp
    note iv = isFormValid_true [OF v]
    show ?thesis
    proof (cases "paymentType d")
      case Full
      with Pair True s show ?thesis
        by (auto simp: proceedToPayment_def Let_def split: sum.splits)
    next
      case Partial
      with iv obtain a where a: "paymentAmount d = Some (Num a)" "0 < a"
        "a \<le> or_zero (amount_outstanding_raw row)" by blast
      with Pair True s Partial show ?thesis
        by (auto simp: proceedToPayment_def Let_def split: sum.splits)
    qed
  qed
qed

theorem proceedToPayment_amount_bounded_witness:
  "fst (isFormValid sample_fmt sample_row sample_dialog) \<and>
   map_option payment_amount (request (proceedToPayment sample_fmt sample_server sample_row sample_dialog))
     = Some (Some (Num 2000)) \<and>
   fst (isFormValid sample_fmt sample_row (sample_dialog\<lparr>paymentType := Full\<rparr>)) \<and>
   map_option payment_amount (request (proceedToPayment sample_fmt sample_server sample_row
       (sample_dialog\<lparr>paymentType := Full\<rparr>))) = Some (Some (Num 5000)) \<and>
   \<not> fst (isFormValid sample_fmt sample_row (sample_dialog\<lparr>paymentAmount := Some (Num 5001)\<rparr>)) \<and>
   request (proceedToPayment sample_fmt sample_server sample_row
       (sample_dialog\<lparr>paymentAmount := Some (Num 5001)\<rparr>)) = None"
proof -
  have v1: "fst (isFormValid sample_fmt sample_row sample_dialog)"
    by (simp add: isFormValid_def validatePaymentAmount_def sample_row_def sample_dialog_def
        truthy_str_def)
  have v2: "fst (isFormValid sample_fmt sample_row (sample_dialog\<lparr>paymentType := Full\<rparr>))"
    by (simp add: isFormValid_def sample_dialog_def truthy_str_def)
  have v3: "\<not> fst (isFormValid sample_fmt sample_row (sample_dialog\<lparr>paymentAmount := Some (Num 5001)\<rparr>))"
    by (simp add: isFormValid_def validatePaymentAmount_def sample_row_def sample_dialog_def
        truthy_str_def)
  have t: "paymentType sample_dialog = Partial" "paymentAmount sample_dialog = Some (Num 2000)"
    "or_zero (amount_outstanding_raw sample_row) = 5000"
    by (simp_all add: sample_dialog_def sample_row_def)
  from v1 v2 v3 t
    proceedToPayment_amount_bounded [of sample_fmt sample_row sample_dialog sample_server]
    proceedToPayment_amount_bounded [of sample_fmt sample_row
      "sample_dialog\<lparr>paymentType := Full\<rparr>" sample_server]
    proceedToPayment_amount_bounded [of sample_fmt sample_row
      "sample_dialog\<lparr>paymentAmount := Some (Num 5001)\<rparr>" sample_server]
  show ?thesis by auto
qed

subsection \<open>Filter options\<close>

lemma fold_set_add_set: "set (fold set_add xs acc) = set acc \<union> set xs"
  by (induction xs arbitrary: acc) (auto simp: set_add_def)

lemma fold_set_add_distinct: "distinct acc \<Longrightarrow> distinct (fold set_add xs acc)"
  by (induction xs arbitrary: acc) (auto simp: set_add_def)

lemma new_Set_set: "set (new_Set xs) = set xs"
  by (simp add: new_Set_def fold_set_add_set)

lemma new_Set_distinct: "distinct (new_Set xs)"
  by (simp add: new_Set_def fold_set_add_distinct)

lemma set_filter_Boolean: "set (filter_Boolean xs) = {s. s \<noteq> [] \<and> Some s \<in> set xs}"
  by (induction xs rule: filter_Boolean.induct) (auto simp: truthy_str_def)

lemma sorted_values:
  "sorted (sort_default (new_Set xs)) \<and> distinct (sort_default (new_Set xs)) \<and>
   set (sort_default (new_Set xs)) = set xs"
  by (simp add: sort_default_def new_Set_set new_Set_distinct)

text \<open>
  C3, as the code has it. The options of the Reports page's year and term filters and
  of the Awards page's year filter are one All option followed by the distinct values
  of the record field, sorted, without duplicates and without a value absent from the
  records. The Reports page's class filter does the same with the non-empty values of
  \<open>program\<close>: a missing or empty program gives no option. The Awards page's category
  filter is a fixed list (All Categories, Academic, Sports, Leadership, Behavioural) that
  does not depend on the records.
\<close>

theorem filter_options_derived:
  "(\<exists>vs. academicYearFilterOptions rs =
          \<lparr>opt_label = ''All Years'', opt_value = [], opt_onClick = []\<rparr> # map option_of vs \<and>
        sorted vs \<and> distinct vs \<and> set vs = academic_year ` set rs) \<and>
   (\<exists>vs. termFilterOptions rs =
          \<lparr>opt_label = ''All Terms'', opt_value = [], opt_onClick = []\<rparr> # map option_of vs \<and>
        sorted vs \<and> distinct vs \<and> set vs = assessment_group ` set rs) \<and>
   (\<exists>vs. programFilterOptions rs =
          \<lparr>opt_label = ''All Programs'', opt_value = [], opt_onClick = []\<rparr> # map option_of vs \<and>
        sorted vs \<and> distinct vs \<and> set vs = {p. p \<noteq> [] \<and> Some p \<in> program ` set rs}) \<and>
   (\<exists>vs. yearOptions as =
          \<lparr>opt_label = ''All Years'', opt_value = [], opt_onClick = []\<rparr> # map option_of vs \<and>
        sorted vs \<and> distinct vs \<and> set vs = year ` set as) \<and>
   map opt_value categoryOptions = [[], ''Academic'', ''Sports'', ''Leadership'', ''Behavioural'']"
proof -
  have 1: "\<exists>vs. academicYearFilterOptions rs =
          \<lparr>opt_label = ''All Years'', opt_value = [], opt_onClick = []\<rparr> # map option_of vs \<and>
        sorted vs \<and> distinct vs \<and> set vs = academic_year ` set rs"
    unfolding academicYearFilterOptions_def Let_def
    by (rule exI [where x = "sort_default (new_Set (map academic_year rs))"])
      (simp add: sorted_values)
  have 2: "\<exists>vs. termFilterOptions rs =
          \<lparr>opt_label = ''All Terms'', opt_value = [], opt_onClick = []\<rparr> # map option_of vs \<and>
        sorted vs \<and> distinct vs \<and> set vs = assessment_group ` set rs"
    unfolding termFilterOptions_def Let_def
    by (rule exI [where x = "sort_default (new_Set (map assessment_group rs))"])
      (simp add: sorted_values)
  have 3: "\<exists>vs. programFilterOptions rs =
          \<lparr>opt_label = ''All Programs'', opt_value = [], opt_onClick = []\<rparr> # map option_of vs \<and>
        sorted vs \<and> distinct vs \<and> set vs = {p. p \<noteq> [] \<and> Some p \<in> program ` set rs}"
    unfolding programFilterOptions_def Let_def
    by (rule exI [where x = "sort_default (new_Set (filter_Boolean (map program rs)))"])
      (simp add: sorted_values set_filter_Boolean)
  have 4: "\<exists>vs. yearOptions as =
          \<lparr>opt_label = ''All Years'', opt_value = [], opt_onClick = []\<rparr> # map option_of vs \<and>
        sorted vs \<and> distinct vs \<and> set vs = year ` set as"
    unfolding yearOptions_def Let_def
    by (rule exI [where x = "sort_default (new_Set (map year as))"])
      (simp add: sorted_values)
  have 5: "map opt_value categoryOptions = [[], ''Academic'', ''Sports'', ''Leadership'', ''Behavioural'']"
    by (simp add: categoryOptions_def)
  from 1 2 3 4 5 show ?thesis by blast
qed

text \<open>
  C3 as stated fails. The sample awards have the categories Arts and Sports: the
  category filter offers Academic, which no record has, and does not offer Arts, which a
  record has. One of the sample reports has the empty string as its program: that value
  of the field gets no option in the class filter, whose options after All Programs are
  the two non-empty programs.
\<close>

theorem filter_options_counterexample:
  "''Academic'' \<in> set (map opt_value categoryOptions) \<and>
   ''Academic'' \<notin> category ` set sample_awards \<and>
   ''Arts'' \<in> category ` set sample_awards \<and>
   ''Arts'' \<notin> set (map opt_value categoryOptions) \<and>
   Some [] \<in> program ` set sample_reports \<and>
   map opt_value (tl (programFilterOptions sample_reports)) = [''Primary 1'', ''Primary 2'']"
  by (simp add: categoryOptions_def sample_awards_def programFilterOptions_def sample_reports_def
      new_Set_def set_add_def sort_default_def truthy_str_def option_of_def less_char_def
      less_eq_char_def)

subsection \<open>Filtered lists\<close>

lemma mset_insert_by: "mset (insert_by cmp x ys) = add_mset x (mset ys)"
  by (induction ys) auto

lemma mset_sort_with: "mset (sort_with cmp xs) = mset xs"
  by (induction xs) (auto simp: sort_with_def mset_insert_by)

lemma filteredReports_sorted_filter:
  "filteredReports lc rs fy ft fp =
     sort_with (report_order lc)
       (filter (\<lambda>r. (fy \<noteq> [] \<longrightarrow> academic_year r = fy) \<and>
                      (ft \<noteq> [] \<longrightarrow> assessment_group r = ft) \<and>
                      (fp \<noteq> [] \<longrightarrow> program r = Some fp)) rs)"
proof -
  have "filter (\<lambda>r. (fy \<noteq> [] \<longrightarrow> academic_year r = fy) \<and>
                      (ft \<noteq> [] \<longrightarrow> assessment_group r = ft) \<and>
                      (fp \<noteq> [] \<longrightarrow> program r = Some fp)) rs =
        filter (\<lambda>r. fp \<noteq> [] \<longrightarrow> program r = Some fp)
          (filter (\<lambda>r. ft \<noteq> [] \<longrightarrow> assessment_group r = ft)
             (filter (\<lambda>r. fy \<noteq> [] \<longrightarrow> academic_year r = fy) rs))"
    by (simp add: conj_ac)
  then show ?thesis
    by (simp add: filteredReports_def Let_def truthy_str_def)
qed

lemma filteredReports_mset:
  "mset (filteredReports lc rs fy ft fp) =
     filter_mset (\<lambda>r. (fy \<noteq> [] \<longrightarrow> academic_year r = fy) \<and>
                      (ft \<noteq> [] \<longrightarrow> assessment_group r = ft) \<and>
                      (fp \<noteq> [] \<longrightarrow> program r = Some fp)) (mset rs)"
  by (simp only: filteredReports_sorted_filter mset_sort_with mset_filter)

text \<open>
  C4. For every record list and every choice of filter values, \<open>filteredReports\<close> holds
  exactly the reports that match every filter with a non-empty selection, each as often
  as it was fetched (a filter with an empty selection excludes nothing); and
  \<open>filteredAwards\<close> is the list of the awards that match every filter with a non-empty
  selection.
\<close>

theorem filtered_lists_exact:
  "mset (filteredReports lc rs fy ft fp) =
     filter_mset (\<lambda>r. (fy \<noteq> [] \<longrightarrow> academic_year r = fy) \<and>
                      (ft \<noteq> [] \<longrightarrow> assessment_group r = ft) \<and>
                      (fp \<noteq> [] \<longrightarrow> program r = Some fp)) (mset rs) \<and>
   (\<forall>r. r \<in> set (filteredReports lc rs fy ft fp) \<longleftrightarrow>
      r \<in> set rs \<and> (fy \<noteq> [] \<longrightarrow> academic_year r = fy) \<and>
                      (ft \<noteq> [] \<longrightarrow> assessment_group r = ft) \<and>
                      (fp \<noteq> [] \<longrightarrow> program r = Some fp)) \<and>
   filteredAwards as ay ac =
     filter (\<lambda>a. (ay \<noteq> [] \<longrightarrow> year a = ay) \<and> (ac \<noteq> [] \<longrightarrow> category a = ac)) as"
proof -
  note m = filteredReports_mset [of lc rs fy ft fp]
  have "set (filteredReports lc rs fy ft fp) = set_mset (mset (filteredReports lc rs fy ft fp))"
    by simp
  also have "\<dots> = {r \<in> set rs. (fy \<noteq> [] \<longrightarrow> academic_year r = fy) \<and>
                      (ft \<noteq> [] \<longrightarrow> assessment_group r = ft) \<and>
                      (fp \<noteq> [] \<longrightarrow> program r = Some fp)}"
    unfolding m by auto
  finally have s: "set (filteredReports lc rs fy ft fp) =
      {r \<in> set rs. (fy \<noteq> [] \<longrightarrow> academic_year r = fy) \<and>
                      (ft \<noteq> [] \<longrightarrow> assessment_group r = ft) \<and>
                      (fp \<noteq> [] \<longrightarrow> program r = Some fp)}" .
  have a: "filteredAwards as ay ac =
     filter (\<lambda>a. (ay \<noteq> [] \<longrightarrow> year a = ay) \<and> (ac \<noteq> [] \<longrightarrow> category a = ac)) as"
    by (auto simp: filteredAwards_def truthy_str_def intro!: filter_cong)
  from m s a show ?thesis by simp
qed

theorem filtered_lists_exact_witness:
  "mset (filteredReports code_unit_compare sample_reports ''2024-2025'' [] []) =
     {#sample_reports ! 1, sample_reports ! 2#} \<and>
   mset (filteredReports code_unit_compare sample_reports ''2024-2025'' ''First Term'' []) =
     {#sample_reports ! 2#} \<and>
   filteredAwards sample_awards [] ''Sports'' = [sample_awards ! 1] \<and>
   filteredAwards sample_awards [] [] = sample_awards"
  using filtered_lists_exact [of code_unit_compare sample_reports "''2024-2025''" "[]" "[]"
      sample_awards "[]" "''Sports''"]
    filtered_lists_exact [of code_unit_compare sample_reports "''2024-2025''" "''First Term''" "[]"
      sample_awards "[]" "[]"]
  by (simp add: sample_reports_def sample_awards_def)

subsection \<open>\<open>loadReports\<close>\<close>

text \<open>
  C5, as the code has it. When the fetch fails, \<open>loadReports\<close> puts the error into the
  alert (type \<open>error\<close>), replaces the stored report list by the empty list, and changes
  nothing else but the loading flags. When the fetch succeeds the list is replaced by
  the fetched one (empty when the result has no message). In both outcomes both loading
  flags end up false.
\<close>

theorem loadReports_outcome:
  "loadReports (Inl msg) s =
     s\<lparr>isLoading := False, isRefreshing := False,
       alertMessage := ''Error loading reports: '' @ msg, alertType := ''error'', allReports := []\<rparr> \<and>
   loadReports (Inr m) s =
     s\<lparr>isLoading := False, isRefreshing := False,
       allReports := (case m of Some rs \<Rightarrow> rs | None \<Rightarrow> [])\<rparr>"
  by (simp add: loadReports_def showAlert_def Let_def)

text \<open>
  C5 as stated fails: on the sample page, which holds three reports, a failing fetch
  leaves the stored list empty.
\<close>

theorem loadReports_counterexample:
  "allReports (loadReports (Inl ''HTTP 500: Internal Server Error'') sample_page) \<noteq>
     allReports sample_page"
  by (simp add: loadReports_def showAlert_def sample_page_def sample_reports_def)

subsection \<open>\<open>populate_skills\<close>\<close>

lemma foldl_add_child: "foldl add_child table ss = table @ map (\<lambda>s. \<lparr>skill = skill_name s\<rparr>) ss"
  by (induction ss arbitrary: table) (simp_all add: add_child_def)

lemma add_skills_rows: "add_skills t [] = map (\<lambda>s. \<lparr>skill = skill_name s\<rparr>) (or_empty t)"
  by (cases t) (simp_all add: foldl_add_child)

lemma populate_found:
  assumes "fields_set doc" "get_list (enrollment_call doc) = Some (e # es)"
    "get_doc settings_call = Some settings" "determine_level settings (enrolled_program e) = Some level"
  shows "populate_skills get_list get_doc doc =
     (doc\<lparr>psychomotor_skills := map (\<lambda>s. \<lparr>skill = skill_name s\<rparr>) (or_empty (psychomotor_field level settings)),
          affective_skills := map (\<lambda>s. \<lparr>skill = skill_name s\<rparr>) (or_empty (affective_field level settings))\<rparr>,
      [Remote (enrollment_call doc), Remote settings_call,
       Refresh_field ''psychomotor_skills'', Refresh_field ''affective_skills'',
       Msgprint (Skills_populated level (enrolled_program e)
         (length (or_empty (psychomotor_field level settings)) +
          length (or_empty (affective_field level settings))))])"
  using assms by (simp add: populate_skills_def fields_set_def Let_def add_skills_rows)

lemma populate_remote_calls:
  assumes "fields_set doc"
  shows "remote_calls (snd (populate_skills get_list get_doc doc)) =
     (case get_list (enrollment_call doc) of
        Some (e # es) \<Rightarrow> [enrollment_call doc, settings_call]
      | _ \<Rightarrow> [enrollment_call doc])"
  using assms
  by (auto simp: populate_skills_def fields_set_def Let_def split: option.splits list.splits)

text \<open>
  C6, as the code has it. For a form whose student, academic year and assessment group
  are all set, \<open>populate_skills\<close> first looks up the student's submitted Program
  Enrollment for that academic year. When an enrollment is found it then fetches the
  School Settings, so that exactly these two lookups are made, in this order; when none
  is found the enrollment lookup is the only one. When the settings are returned and
  the program is in the primary programs list, or is in the secondary list and not in
  the primary one, the two skill tables are replaced by one row per skill configured
  for that level, each row's skill being the setting's skill name.
\<close>

theorem populate_skills_populates:
  assumes "truthy_opt (student doc)" "truthy_opt (frm_academic_year doc)"
    "truthy_opt (frm_assessment_group doc)"
  shows "(\<forall>e es. get_list (enrollment_call doc) = Some (e # es) \<longrightarrow>
            remote_calls (snd (populate_skills get_list get_doc doc)) =
              [enrollment_call doc, settings_call]) \<and>
         (get_list (enrollment_call doc) = None \<or> get_list (enrollment_call doc) = Some [] \<longrightarrow>
            remote_calls (snd (populate_skills get_list get_doc doc)) = [enrollment_call doc]) \<and>
         (\<forall>e es settings. get_list (enrollment_call doc) = Some (e # es) \<and>
            get_doc settings_call = Some settings \<and>
            enrolled_program e \<in> row_program ` set (or_empty (primary_programs settings)) \<longrightarrow>
            fst (populate_skills get_list get_doc doc) =
              doc\<lparr>psychomotor_skills :=
                     map (\<lambda>s. \<lparr>skill = skill_name s\<rparr>) (or_empty (primary_psychomotor_skills settings)),
                   affective_skills :=
                     map (\<lambda>s. \<lparr>skill = skill_name s\<rparr>) (or_empty (primary_affective_skills settings))\<rparr>) \<and>
         (\<forall>e es settings. get_list (enrollment_call doc) = Some (e # es) \<and>
            get_doc settings_call = Some settings \<and>
            enrolled_program e \<notin> row_program ` set (or_empty (primary_programs settings)) \<and>
            enrolled_program e \<in> row_program ` set (or_empty (secondary_programs settings)) \<longrightarrow>
            fst (populate_skills get_list get_doc doc) =
              doc\<lparr>psychomotor_skills :=
                     map (\<lambda>s. \<lparr>skill = skill_name s\<rparr>) (or_empty (secondary_psychomotor_skills settings)),
                   affective_skills :=
                     map (\<lambda>s. \<lparr>skill = skill_name s\<rparr>) (or_empty (secondary_affective_skills settings))\<rparr>)"
proof -
  from assms have f: "fields_set doc" by (simp add: fields_set_def)
  have 1: "\<forall>e es. get_list (enrollment_call doc) = Some (e # es) \<longrightarrow>
            remote_calls (snd (populate_skills get_list get_doc doc)) =
              [enrollment_call doc, settings_call]"
    by (simp add: populate_remote_calls [OF f])
  have 2: "get_list (enrollment_call doc) = None \<or> get_list (enrollment_call doc) = Some [] \<longrightarrow>
            remote_calls (snd (populate_skills get_list get_doc doc)) = [enrollment_call doc]"
    by (auto simp: populate_remote_calls [OF f])
  have 3: "\<forall>e es settings. get_list (enrollment_call doc) = Some (e # es) \<and>
            get_doc settings_call = Some settings \<and>
            enrolled_program e \<in> row_program ` set (or_empty (primary_programs settings)) \<longrightarrow>
            fst (populate_skills get_list get_doc doc) =
              doc\<lparr>psychomotor_skills :=
                     map (\<lambda>s. \<lparr>skill = skill_name s\<rparr>) (or_empty (primary_psychomotor_skills settings)),
                   affective_skills :=
                     map (\<lambda>s. \<lparr>skill = skill_name s\<rparr>) (or_empty (primary_affective_skills settings))\<rparr>"
  proof (intro allI impI, elim conjE)
    fix e es settings
    assume a: "get_list (enrollment_call doc) = Some (e # es)" "get_doc settings_call = Some settings"
      and p: "enrolled_program e \<in> row_program ` set (or_empty (primary_programs settings))"
    from p have "determine_level settings (enrolled_program e) = Some Primary"
      by (simp add: determine_level_def)
    from populate_found [where get_list = get_list and get_doc = get_doc, OF f a this]
    show "fst (populate_skills get_list get_doc doc) =
              doc\<lparr>psychomotor_skills :=
                     map (\<lambda>s. \<lparr>skill = skill_name s\<rparr>) (or_empty (primary_psychomotor_skills settings)),
                   affective_skills :=
                     map (\<lambda>s. \<lparr>skill = skill_name s\<rparr>) (or_empty (primary_affective_skills settings))\<rparr>"
      by simp
  qed
  have 4: "\<forall>e es settings. get_list (enrollment_call doc) = Some (e # es) \<and>
            get_doc settings_call = Some settings \<and>
            enrolled_program e \<notin> row_program ` set (or_empty (primary_programs settings)) \<and>
            enrolled_program e \<in> row_program ` set (or_empty (secondary_programs settings)) \<longrightarrow>
            fst (populate_skills get_list get_doc doc) =
              doc\<lparr>psychomotor_skills :=
                     map (\<lambda>s. \<lparr>skill = skill_name s\<rparr>) (or_empty (secondary_psychomotor_skills settings)),
                   affective_skills :=
                     map (\<lambda>s. \<lparr>skill = skill_name s\<rparr>) (or_empty (secondary_affective_skills settings))\<rparr>"
  proof (intro allI impI, elim conjE)
    fix e es settings
    assume a: "get_list (enrollment_call doc) = Some (e # es)" "get_doc settings_call = Some settings"
      and p: "enrolled_program e \<notin> row_program ` set (or_empty (primary_programs settings))"
        "enrolled_program e \<in> row_program ` set (or_empty (secondary_programs settings))"
    from p have "determine_level settings (enrolled_program e) = Some Secondary"
      by (simp add: determine_level_def)
    from populate_found [where get_list = get_list and get_doc = get_doc, OF f a this]
    show "fst (populate_skills get_list get_doc doc) =
              doc\<lparr>psychomotor_skills :=
                     map (\<lambda>s. \<lparr>skill = skill_name s\<rparr>) (or_empty (secondary_psychomotor_skills settings)),
                   affective_skills :=
                     map (\<lambda>s. \<lparr>skill = skill_name s\<rparr>) (or_empty (secondary_affective_skills settings))\<rparr>"
      by simp
  qed
  from 1 2 3 4 show ?thesis by blast
qed

theorem populate_skills_populates_witness:
  "truthy_opt (student sample_result) \<and> truthy_opt (frm_academic_year sample_result) \<and>
   truthy_opt (frm_assessment_group sample_result) \<and>
   remote_calls (snd (populate_skills (sample_enrolled ''Primary 1'') (\<lambda>c. Some sample_settings)
       sample_result)) = [enrollment_call sample_result, settings_call] \<and>
   remote_calls (snd (populate_skills (\<lambda>c. Some []) (\<lambda>c. Some sample_settings) sample_result)) =
     [enrollment_call sample_result] \<and>
   psychomotor_skills (fst (populate_skills (sample_enrolled ''Primary 1'') (\<lambda>c. Some sample_settings)
       sample_result)) = [\<lparr>skill = ''Handwriting''\<rparr>, \<lparr>skill = ''Drawing''\<rparr>] \<and>
   affective_skills (fst (populate_skills (sample_enrolled ''Primary 1'') (\<lambda>c. Some sample_settings)
       sample_result)) = [\<lparr>skill = ''Punctuality''\<rparr>] \<and>
   psychomotor_skills (fst (populate_skills (sample_enrolled ''JSS 1'') (\<lambda>c. Some sample_settings)
       sample_result)) = [\<lparr>skill = ''Sports''\<rparr>] \<and>
   affective_skills (fst (populate_skills (sample_enrolled ''JSS 1'') (\<lambda>c. Some sample_settings)
       sample_result)) = []"
proof -
  have f: "truthy_opt (student sample_result)" "truthy_opt (frm_academic_year sample_result)"
    "truthy_opt (frm_assessment_group sample_result)"
    by (simp_all add: sample_result_def truthy_str_def)
  note p = populate_skills_populates [OF f, where get_doc = "\<lambda>c. Some sample_settings"]
  from f p [of "sample_enrolled ''Primary 1''"] p [of "sample_enrolled ''JSS 1''"]
    p [of "\<lambda>c. Some []"]
  show ?thesis
    by (simp add: sample_enrolled_def sample_settings_def)
qed

text \<open>
  C6 as stated fails. On the sample form, whose three fields are set, a server that
  finds no enrollment is asked once, not twice. And for the program \<open>Shared\<close>, which
  the sample settings list under both the primary and the secondary programs, the
  psychomotor table receives the primary skills, not the secondary ones.
\<close>

theorem populate_skills_counterexample:
  "fields_set sample_result \<and>
   remote_calls (snd (populate_skills (\<lambda>c. None) (\<lambda>c. Some sample_settings) sample_result)) =
     [enrollment_call sample_result] \<and>
   ''Shared'' \<in> row_program ` set (or_empty (secondary_programs sample_settings)) \<and>
   psychomotor_skills (fst (populate_skills (sample_enrolled ''Shared'') (\<lambda>c. Some sample_settings)
       sample_result)) = [\<lparr>skill = ''Handwriting''\<rparr>, \<lparr>skill = ''Drawing''\<rparr>] \<and>
   map (\<lambda>s. \<lparr>skill = skill_name s\<rparr>) (or_empty (secondary_psychomotor_skills sample_settings)) =
     [\<lparr>skill = ''Sports''\<rparr>]"
  by (simp add: populate_skills_def fields_set_def sample_result_def sample_settings_def
      sample_enrolled_def determine_level_def truthy_str_def add_child_def Let_def)

text \<open>
  C10. \<open>populate_skills\<close> leaves the form unchanged, both skill tables included, whenever
  population cannot proceed. When one of student, academic year and assessment group is
  unset it returns without any remote call and without a message. When no Program
  Enrollment is found, when the School Settings fetch yields nothing, and when the
  program is in neither programs list, the only events besides the lookups made are one
  message to the user.
\<close>

theorem populate_skills_frame:
  "(\<not> truthy_opt (student doc) \<or> \<not> truthy_opt (frm_academic_year doc) \<or>
      \<not> truthy_opt (frm_assessment_group doc) \<longrightarrow>
      populate_skills get_list get_doc doc = (doc, [])) \<and>
   (fields_set doc \<and>
      (get_list (enrollment_call doc) = None \<or> get_list (enrollment_call doc) = Some []) \<longrightarrow>
      populate_skills get_list get_doc doc =
        (doc, [Remote (enrollment_call doc), Msgprint No_enrollment_found])) \<and>
   (\<forall>e es. fields_set doc \<and> get_list (enrollment_call doc) = Some (e # es) \<and>
      get_doc settings_call = None \<longrightarrow>
      populate_skills get_list get_doc doc =
        (doc, [Remote (enrollment_call doc), Remote settings_call, Msgprint Could_not_fetch_settings])) \<and>
   (\<forall>e es settings. fields_set doc \<and> get_list (enrollment_call doc) = Some (e # es) \<and>
      get_doc settings_call = Some settings \<and>
      enrolled_program e \<notin> row_program ` set (or_empty (primary_programs settings)) \<and>
      enrolled_program e \<notin> row_program ` set (or_empty (secondary_programs settings)) \<longrightarrow>
      populate_skills get_list get_doc doc =
        (doc, [Remote (enrollment_call doc), Remote settings_call,
               Msgprint (Program_not_found (enrolled_program e))]))"
  by (auto simp: populate_skills_def fields_set_def determine_level_def Let_def)

theorem populate_skills_frame_witness:
  "populate_skills (sample_enrolled ''Primary 1'') (\<lambda>c. Some sample_settings)
       (sample_result\<lparr>student := None\<rparr>) = (sample_result\<lparr>student := None\<rparr>, []) \<and>
   fields_set sample_result \<and>
   populate_skills (\<lambda>c. None) (\<lambda>c. Some sample_settings) sample_result =
     (sample_result, [Remote (enrollment_call sample_result), Msgprint No_enrollment_found]) \<and>
   populate_skills (sample_enrolled ''Primary 1'') (\<lambda>c. None) sample_result =
     (sample_result, [Remote (enrollment_call sample_result), Remote settings_call,
                      Msgprint Could_not_fetch_settings]) \<and>
   populate_skills (sample_enrolled ''Nursery 2'') (\<lambda>c. Some sample_settings) sample_result =
     (sample_result, [Remote (enrollment_call sample_result), Remote settings_call,
                      Msgprint (Program_not_found ''Nursery 2'')])"
proof -
  have f: "fields_set sample_result"
    by (simp add: fields_set_def sample_result_def truthy_str_def)
  have n: "\<not> truthy_opt (student (sample_result\<lparr>student := None\<rparr>))" by simp
  from f n
    populate_skills_frame [of "sample_result\<lparr>student := None\<rparr>" "sample_enrolled ''Primary 1''"
      "\<lambda>c. Some sample_settings"]
    populate_skills_frame [of sample_result "\<lambda>c. None" "\<lambda>c. Some sample_settings"]
    populate_skills_frame [of sample_result "sample_enrolled ''Primary 1''" "\<lambda>c. None"]
    populate_skills_frame [of sample_result "sample_enrolled ''Nursery 2''" "\<lambda>c. Some sample_settings"]
  show ?thesis
    by (simp add: sample_enrolled_def sample_settings_def)
qed

subsection \<open>Assessment Plan\<close>

lemma foldl_add_criterion:
  "foldl add_criterion table cs =
     table @ map (\<lambda>c. \<lparr>row_assessment_criteria = assessment_criteria c, row_weightage = weightage c\<rparr>) cs"
  by (induction cs arbitrary: table) (simp_all add: add_criterion_def)

text \<open>
  C7. When \<open>student_group\<close> is set and the policy-details lookup returns a policy, the
  handler sets \<open>maximum_assessment_score\<close> to the policy's maximum score and replaces the
  criteria table by one row per criteria entry of the policy, in order, with the entry's
  criteria name and weightage; nothing else in the form changes. When \<open>student_group\<close>
  is empty no lookup is made and the form is unchanged.
\<close>

theorem student_group_handler_spec:
  "(\<forall>p. truthy_opt (student_group doc) \<and> get_policy_details (policy_call doc) = Some p \<longrightarrow>
      student_group_handler get_policy_details doc =
        (doc\<lparr>maximum_assessment_score := Some (max_assessment_score p),
             assessment_criteria_table :=
               map (\<lambda>c. \<lparr>row_assessment_criteria = assessment_criteria c, row_weightage = weightage c\<rparr>)
                 (criteria p)\<rparr>,
         [Remote (policy_call doc), Refresh_field ''assessment_criteria''])) \<and>
   (\<not> truthy_opt (student_group doc) \<longrightarrow>
      student_group_handler get_policy_details doc = (doc, []))"
  by (simp add: student_group_handler_def Let_def foldl_add_criterion)

theorem student_group_handler_spec_witness:
  "truthy_opt (student_group sample_plan) \<and>
   student_group_handler (\<lambda>c. Some sample_policy) sample_plan =
     (\<lparr>student_group = Some ''Primary 1 A'', maximum_assessment_score = Some 100,
       assessment_criteria_table =
         [\<lparr>row_assessment_criteria = ''Test'', row_weightage = 40\<rparr>,
          \<lparr>row_assessment_criteria = ''Exam'', row_weightage = 60\<rparr>]\<rparr>,
      [Remote (policy_call sample_plan), Refresh_field ''assessment_criteria'']) \<and>
   \<not> truthy_opt (student_group (sample_plan\<lparr>student_group := Some []\<rparr>)) \<and>
   student_group_handler (\<lambda>c. Some sample_policy) (sample_plan\<lparr>student_group := Some []\<rparr>) =
     (sample_plan\<lparr>student_group := Some []\<rparr>, [])"
proof -
  have t: "truthy_opt (student_group sample_plan)"
    by (simp add: sample_plan_def truthy_str_def)
  have n: "\<not> truthy_opt (student_group (sample_plan\<lparr>student_group := Some []\<rparr>))"
    by (simp add: truthy_str_def)
  from t n
    student_group_handler_spec [of sample_plan "\<lambda>c. Some sample_policy"]
    student_group_handler_spec [of "sample_plan\<lparr>student_group := Some []\<rparr>" "\<lambda>c. Some sample_policy"]
  show ?thesis
    by (simp add: sample_plan_def sample_policy_def)
qed

end
